theory Spec2Isabelle
  imports Complex_Main "HOL-Library.Sublist"
begin

section \<open>Floats\<close>

text \<open>
  The prediction service of \<^verbatim>\<open>app.py\<close> receives a JSON object and post-processes the
  output of three trained predictors. This theory embeds that post-processing.

  A Python float is a finite number, one of the two infinities, or NaN. The
  operations follow IEEE 754 on the infinities and on NaN: NaN is the result of
  \<open>inf - inf\<close> and of \<open>0 * inf\<close>, every operation on NaN gives NaN, and every
  comparison with NaN is false. On finite numbers the operations are exact: the
  rounding of a result to 53 bits, and its overflow, are not modelled. The
  properties proved below are orders, bounds and the treatment of NaN, which the
  rounded operations share, rounding being monotone.
\<close>

datatype pyfloat = Fin real | PInf | NInf | NaN

fun is_nan :: "pyfloat \<Rightarrow> bool" where
  "is_nan NaN = True"
| "is_nan x = False"

fun is_finite :: "pyfloat \<Rightarrow> bool" where
  "is_finite (Fin r) = True"
| "is_finite x = False"

text \<open>The sign of a float that is not NaN, and the infinity of a sign.\<close>

fun sign_of :: "pyfloat \<Rightarrow> real" where
  "sign_of (Fin r) = sgn r"
| "sign_of PInf = 1"
| "sign_of NInf = - 1"
| "sign_of NaN = 0"

definition inf_of_sign :: "real \<Rightarrow> pyfloat" where
  "inf_of_sign s = (if s > 0 then PInf else if s < 0 then NInf else NaN)"

instantiation pyfloat :: "{ord, uminus, plus, minus, times}"
begin

fun less_pyfloat :: "pyfloat \<Rightarrow> pyfloat \<Rightarrow> bool" where
  "less_pyfloat NaN y = False"
| "less_pyfloat x NaN = False"
| "less_pyfloat (Fin a) (Fin b) = (a < b)"
| "less_pyfloat x PInf = (x \<noteq> PInf)"
| "less_pyfloat NInf y = (y \<noteq> NInf)"
| "less_pyfloat x y = False"

definition less_eq_pyfloat :: "pyfloat \<Rightarrow> pyfloat \<Rightarrow> bool" where
  "less_eq_pyfloat x y = (x < y \<or> (x = y \<and> \<not> is_nan x))"

fun uminus_pyfloat :: "pyfloat \<Rightarrow> pyfloat" where
  "uminus_pyfloat (Fin a) = Fin (- a)"
| "uminus_pyfloat PInf = NInf"
| "uminus_pyfloat NInf = PInf"
| "uminus_pyfloat NaN = NaN"

fun plus_pyfloat :: "pyfloat \<Rightarrow> pyfloat \<Rightarrow> pyfloat" where
  "plus_pyfloat NaN y = NaN"
| "plus_pyfloat x NaN = NaN"
| "plus_pyfloat (Fin a) (Fin b) = Fin (a + b)"
| "plus_pyfloat (Fin a) y = y"
| "plus_pyfloat x (Fin b) = x"
| "plus_pyfloat x y = (if x = y then x else NaN)"

definition minus_pyfloat :: "pyfloat \<Rightarrow> pyfloat \<Rightarrow> pyfloat" where
  "minus_pyfloat x y = x + (- y)"

fun times_pyfloat :: "pyfloat \<Rightarrow> pyfloat \<Rightarrow> pyfloat" where
  "times_pyfloat NaN y = NaN"
| "times_pyfloat x NaN = NaN"
| "times_pyfloat (Fin a) (Fin b) = Fin (a * b)"
| "times_pyfloat x y = inf_of_sign (sign_of x * sign_of y)"

instance ..

end

text \<open>
  \<^verbatim>\<open>max(a, b)\<close> keeps its first argument unless the second is greater, so it is
  NaN when the first argument is.
\<close>

definition py_max :: "pyfloat \<Rightarrow> pyfloat \<Rightarrow> pyfloat" where
  "py_max a b = (if b > a then b else a)"

text \<open>
  A decimal literal or an integer is read as the nearest float. A number whose
  magnitude reaches \<open>2^1024 - 2^970\<close> has no finite nearest float: a literal is read
  as an infinity, and the conversion of an integer raises \<^verbatim>\<open>OverflowError\<close>.
\<close>

definition float_overflow :: "real \<Rightarrow> bool" where
  "float_overflow r = (\<bar>r\<bar> \<ge> 2 ^ 1024 - 2 ^ 970)"

definition float_of_real :: "real \<Rightarrow> pyfloat" where
  "float_of_real r = (if float_overflow r then inf_of_sign r else Fin r)"

section \<open>Strings\<close>

text \<open>
  Strings are byte strings here: \<^verbatim>\<open>lower\<close> maps the letters A to Z and leaves every other
  byte alone, \<^verbatim>\<open>strip\<close> removes the ASCII whitespace at both ends. \<^verbatim>\<open>a in b\<close> on two
  strings is the substring test.
\<close>

definition char_lower :: "char \<Rightarrow> char" where
  "char_lower c =
     (case map_of (zip ''ABCDEFGHIJKLMNOPQRSTUVWXYZ'' ''abcdefghijklmnopqrstuvwxyz'') c of
        Some l \<Rightarrow> l
      | None \<Rightarrow> c)"

definition lower :: "string \<Rightarrow> string" where
  "lower s = map char_lower s"

definition is_space :: "char \<Rightarrow> bool" where
  "is_space c = (let n = (of_char c :: nat) in (9 \<le> n \<and> n \<le> 13) \<or> (28 \<le> n \<and> n \<le> 32))"

definition strip :: "string \<Rightarrow> string" where
  "strip s = rev (dropWhile is_space (rev (dropWhile is_space s)))"

fun str_in :: "string \<Rightarrow> string \<Rightarrow> bool" where
  "str_in sub [] = (sub = [])"
| "str_in sub (c # cs) = (prefix sub (c # cs) \<or> str_in sub cs)"

section \<open>Values, dictionaries and errors\<close>

text \<open>
  A value of the request is a JSON value as Python's parser returns it: an integer
  literal is an \<^verbatim>\<open>int\<close>, any other number a float, and the parser accepts the literals
  \<^verbatim>\<open>NaN\<close>, \<^verbatim>\<open>Infinity\<close> and \<^verbatim>\<open>-Infinity\<close>. A request is a dictionary from keys to JSON
  values. An exception of the Python code is the \<open>Inl\<close> branch of a sum.
\<close>

datatype json =
    JNull
  | JBool bool
  | JInt int
  | JNum pyfloat
  | JStr string
  | JArr "json list"
  | JObj "(string \<times> json) list"

type_synonym dict = "string \<rightharpoonup> json"

datatype error = KeyError string | IndexError

text \<open>Sequencing of two steps, the second of which runs only if the first did not raise.\<close>

definition bind :: "error + 'a \<Rightarrow> ('a \<Rightarrow> error + 'b) \<Rightarrow> error + 'b" where
  "bind m f = (case m of Inl e \<Rightarrow> Inl e | Inr x \<Rightarrow> f x)"

text \<open>\<^verbatim>\<open>data[k]\<close> raises \<^verbatim>\<open>KeyError\<close> on a missing key; \<^verbatim>\<open>data.get(k)\<close> gives \<^verbatim>\<open>None\<close>.\<close>

definition getitem :: "dict \<Rightarrow> string \<Rightarrow> error + json" where
  "getitem data k = (case data k of None \<Rightarrow> Inl (KeyError k) | Some v \<Rightarrow> Inr v)"

definition dict_get :: "dict \<Rightarrow> string \<Rightarrow> json" where
  "dict_get data k = (case data k of None \<Rightarrow> JNull | Some v \<Rightarrow> v)"

subsection \<open>The built-in \<^verbatim>\<open>float\<close>\<close>

text \<open>
  \<^verbatim>\<open>float(x)\<close> of a string removes the surrounding whitespace and then the
  underscores, each of which must stand between two digits. What remains is an
  optional sign followed by \<^verbatim>\<open>inf\<close>, \<^verbatim>\<open>infinity\<close> or \<^verbatim>\<open>nan\<close> in any case, or by a
  decimal literal: digits with an optional fraction and an optional exponent. Every
  other string raises \<^verbatim>\<open>ValueError\<close>; \<open>None\<close> stands for the raise.
\<close>

definition is_digit :: "char \<Rightarrow> bool" where
  "is_digit c = (let n = (of_char c :: nat) in 48 \<le> n \<and> n \<le> 57)"

fun drop_underscores :: "char \<Rightarrow> string \<Rightarrow> string option" where
  "drop_underscores prev [] = (if prev = CHR ''_'' then None else Some [])"
| "drop_underscores prev (c # cs) =
     (if c = CHR ''_'' then
        (if is_digit prev then drop_underscores c cs else None)
      else if prev = CHR ''_'' \<and> \<not> is_digit c then None
      else map_option ((#) c) (drop_underscores c cs))"

definition digits_val :: "string \<Rightarrow> nat" where
  "digits_val ds = foldl (\<lambda>a c. 10 * a + (of_char c - 48)) 0 ds"

definition split_sign :: "string \<Rightarrow> real \<times> string" where
  "split_sign s =
     (case s of
        [] \<Rightarrow> (1, [])
      | c # r \<Rightarrow> if c = CHR ''-'' then (- 1, r) else if c = CHR ''+'' then (1, r) else (1, s))"

definition inf_or_nan :: "string \<Rightarrow> pyfloat option" where
  "inf_or_nan s =
     (let l = lower s in
      if l = ''inf'' \<or> l = ''infinity'' then Some PInf
      else if l = ''nan'' then Some NaN
      else None)"

definition float_of_exponent :: "string \<Rightarrow> real option" where
  "float_of_exponent s =
     (case s of
        [] \<Rightarrow> Some 1
      | c # r \<Rightarrow>
          if c = CHR ''e'' \<or> c = CHR ''E'' then
            (let (sg, ds) = split_sign r in
             if ds \<noteq> [] \<and> list_all is_digit ds
             then Some (if sg < 0 then 1 / 10 ^ digits_val ds else 10 ^ digits_val ds)
             else None)
          else None)"

definition decimal_of_string :: "string \<Rightarrow> real option" where
  "decimal_of_string u =
     (let ip = takeWhile is_digit u;
          r1 = dropWhile is_digit u;
          (fp, r2) = (case r1 of
                        [] \<Rightarrow> ([], [])
                      | c # r \<Rightarrow> if c = CHR ''.''
                                 then (takeWhile is_digit r, dropWhile is_digit r)
                                 else ([], r1))
      in if ip = [] \<and> fp = [] then None
         else map_option
                (\<lambda>ex. (real (digits_val (ip @ fp)) / 10 ^ length fp) * ex)
                (float_of_exponent r2))"

definition float_of_string :: "string \<Rightarrow> pyfloat option" where
  "float_of_string s =
     (case drop_underscores (CHR 0x00) (strip s) of
        None \<Rightarrow> None
      | Some t \<Rightarrow>
          (let (sg, u) = split_sign t in
           case inf_or_nan u of
             Some x \<Rightarrow> Some (if sg < 0 then - x else x)
           | None \<Rightarrow> map_option (\<lambda>r. float_of_real (sg * r)) (decimal_of_string u)))"

text \<open>
  \<^verbatim>\<open>float(x)\<close> of the other values: a boolean is 1.0 or 0.0, a float is itself, an
  integer is converted unless it is too large, and \<^verbatim>\<open>None\<close>, a list and a dictionary
  raise \<^verbatim>\<open>TypeError\<close>.
\<close>

fun py_float :: "json \<Rightarrow> pyfloat option" where
  "py_float JNull = None"
| "py_float (JBool b) = Some (Fin (if b then 1 else 0))"
| "py_float (JInt n) = (if float_overflow (of_int n) then None else Some (Fin (of_int n)))"
| "py_float (JNum x) = Some x"
| "py_float (JStr s) = float_of_string s"
| "py_float (JArr xs) = None"
| "py_float (JObj kvs) = None"

text \<open>\<^verbatim>\<open>to_float\<close>: the conversion, with every exception replaced by \<open>0.0\<close>.\<close>

definition to_float :: "json \<Rightarrow> pyfloat" where
  "to_float x = (case py_float x of Some r \<Rightarrow> r | None \<Rightarrow> Fin 0)"

section \<open>Crop failure check\<close>

text \<open>
  \<^verbatim>\<open>check_crop_failure\<close> reads six fields in the order temperature, ph, rainfall, N, P, K
  and counts how many of them are extreme.
\<close>

definition count_extreme :: "pyfloat \<Rightarrow> pyfloat \<Rightarrow> pyfloat \<Rightarrow> pyfloat \<Rightarrow> pyfloat \<Rightarrow> pyfloat \<Rightarrow> nat" where
  "count_extreme temp ph rain N P K =
     (let extreme = (0::nat);
          extreme = (if temp > Fin 45 then extreme + 1 else extreme);
          extreme = (if rain < Fin 20 then extreme + 1 else extreme);
          extreme = (if ph < Fin 5 then extreme + 1 else extreme);
          extreme = (if N < Fin 20 then extreme + 1 else extreme);
          extreme = (if P < Fin 15 then extreme + 1 else extreme);
          extreme = (if K < Fin 15 then extreme + 1 else extreme)
      in extreme)"

definition check_crop_failure :: "dict \<Rightarrow> error + bool" where
  "check_crop_failure data =
     bind (getitem data ''temperature'') (\<lambda>temp.
     bind (getitem data ''ph'') (\<lambda>ph.
     bind (getitem data ''rainfall'') (\<lambda>rain.
     bind (getitem data ''N'') (\<lambda>N.
     bind (getitem data ''P'') (\<lambda>P.
     bind (getitem data ''K'') (\<lambda>K.
       Inr (count_extreme (to_float temp) (to_float ph) (to_float rain)
              (to_float N) (to_float P) (to_float K) \<ge> 2)))))))"

section \<open>Yield and expense correction\<close>

text \<open>
  Both corrections read their fields with \<^verbatim>\<open>data[...]\<close> first and then multiply a
  factor that starts at \<open>1.0\<close>. The two \<^verbatim>\<open>elif\<close> bands are the nested conditionals.
\<close>

definition yield_corr ::
  "pyfloat \<Rightarrow> pyfloat \<Rightarrow> pyfloat \<Rightarrow> pyfloat \<Rightarrow> pyfloat \<Rightarrow> pyfloat \<Rightarrow> pyfloat \<Rightarrow> pyfloat" where
  "yield_corr temp ph rain humidity N P K =
     (let corr = Fin 1;
          corr = (if temp > Fin 45 then corr * Fin 0.30
                  else if temp > Fin 38 then corr * Fin 0.55 else corr);
          corr = (if rain < Fin 20 then corr * Fin 0.40
                  else if rain < Fin 40 then corr * Fin 0.65 else corr);
          corr = (if ph < Fin 5 \<or> ph > Fin 8 then corr * Fin 0.50 else corr);
          corr = (if N < Fin 40 then corr * Fin 0.60 else corr);
          corr = (if P < Fin 30 then corr * Fin 0.70 else corr);
          corr = (if K < Fin 30 then corr * Fin 0.60 else corr);
          corr = (if humidity > Fin 85 then corr * Fin 0.80 else corr)
      in corr)"

definition apply_yield_correction :: "pyfloat \<Rightarrow> dict \<Rightarrow> error + pyfloat" where
  "apply_yield_correction raw_yield data =
     bind (getitem data ''temperature'') (\<lambda>temp.
     bind (getitem data ''ph'') (\<lambda>ph.
     bind (getitem data ''rainfall'') (\<lambda>rain.
     bind (getitem data ''humidity'') (\<lambda>humidity.
     bind (getitem data ''N'') (\<lambda>N.
     bind (getitem data ''P'') (\<lambda>P.
     bind (getitem data ''K'') (\<lambda>K.
       Inr (raw_yield * yield_corr (to_float temp) (to_float ph) (to_float rain)
              (to_float humidity) (to_float N) (to_float P) (to_float K)))))))))"

definition expense_corr :: "pyfloat \<Rightarrow> pyfloat \<Rightarrow> pyfloat \<Rightarrow> pyfloat" where
  "expense_corr temp rain humidity =
     (let corr = Fin 1;
          corr = (if temp > Fin 40 then corr * Fin 1.20 else corr);
          corr = (if rain < Fin 20 then corr * Fin 1.30 else corr);
          corr = (if humidity > Fin 90 then corr * Fin 1.15 else corr)
      in corr)"

definition apply_expense_correction :: "pyfloat \<Rightarrow> dict \<Rightarrow> error + pyfloat" where
  "apply_expense_correction expense data =
     bind (getitem data ''temperature'') (\<lambda>temp.
     bind (getitem data ''rainfall'') (\<lambda>rain.
     bind (getitem data ''humidity'') (\<lambda>humidity.
       Inr (expense * expense_corr (to_float temp) (to_float rain) (to_float humidity)))))"

section \<open>Crop name resolution\<close>

text \<open>The \<^verbatim>\<open>for v in valid_list\<close> loop, which returns at the first match.\<close>

fun first_match :: "string \<Rightarrow> string list \<Rightarrow> string option" where
  "first_match p [] = None"
| "first_match p (v # vs) = (if str_in (take 3 p) v then Some v else first_match p vs)"

definition adjust_to_valid_crop :: "string \<Rightarrow> string list \<Rightarrow> error + string" where
  "adjust_to_valid_crop pred_crop valid_list =
     (let pred_crop = strip (lower pred_crop) in
      if pred_crop \<in> set valid_list then Inr pred_crop
      else case first_match pred_crop valid_list of
             Some v \<Rightarrow> Inr v
           | None \<Rightarrow> (case valid_list of [] \<Rightarrow> Inl IndexError | v0 # _ \<Rightarrow> Inr v0))"

text \<open>
  The resolver in the words of its specification: the normalised label if it is in the
  catalog, else the first catalog entry that contains the first three characters of
  the normalised label, else the first catalog entry.
\<close>

definition resolve_spec :: "string \<Rightarrow> string list \<Rightarrow> string" where
  "resolve_spec x catalog =
     (let y = strip (lower x) in
      if y \<in> set catalog then y
      else case find (\<lambda>v. str_in (take 3 y) v) catalog of
             Some v \<Rightarrow> v
           | None \<Rightarrow> hd catalog)"

section \<open>Suggestion engine\<close>

definition CROP_FACTOR :: "(string \<times> real) list" where
  "CROP_FACTOR =
     [(''rice'', 0.78), (''wheat'', 0.74), (''maize'', 0.72), (''banana'', 0.70),
      (''barley'', 0.69), (''blackgram'', 0.68), (''brinjal'', 0.71), (''sesame'', 0.67),
      (''chickpea'', 0.73), (''onion'', 0.66), (''chilli'', 0.65), (''cauliflower'', 0.70),
      (''pigeonpeas'', 0.74), (''potato'', 0.76), (''sorghum'', 0.69), (''sugarcane'', 0.64)]"

text \<open>\<^verbatim>\<open>CROP_FACTOR.get(crop, 0.75)\<close>\<close>

definition crop_factor :: "string \<Rightarrow> pyfloat" where
  "crop_factor crop = Fin (case map_of CROP_FACTOR crop of Some f \<Rightarrow> f | None \<Rightarrow> 0.75)"

record suggestion =
  Crop :: string
  Yield :: pyfloat
  Profit :: pyfloat

definition fixed_expense :: "dict \<Rightarrow> pyfloat" where
  "fixed_expense data =
     to_float (dict_get data ''fertilizer'') * Fin 40 +
     to_float (dict_get data ''pesticide'') * Fin 120 +
     to_float (dict_get data ''seed'') +
     to_float (dict_get data ''other'')"

text \<open>The body of the loop over \<^verbatim>\<open>ALL_CROPS\<close>: the entry appended for one crop.\<close>

definition candidate :: "dict \<Rightarrow> pyfloat \<Rightarrow> pyfloat \<Rightarrow> string \<Rightarrow> suggestion" where
  "candidate data user_price base_yield crop =
     (let factor = crop_factor crop;
          approx_yield = base_yield * factor;
          revenue = approx_yield * user_price;
          profit = revenue - fixed_expense data
      in \<lparr>Crop = crop, Yield = approx_yield, Profit = profit\<rparr>)"

text \<open>
  \<^verbatim>\<open>sorted(suggestions, key=..., reverse=True)\<close> is Python's stable sort by descending
  key: it compares keys with \<open><\<close> only, and entries none of which is less than the
  other keep their order. On keys without NaN a stable sort determines its result, so
  the insertion sort below computes the same list; on keys that are all NaN every
  comparison is false and both leave the list as it is.
\<close>

fun insort_desc :: "('a \<Rightarrow> pyfloat) \<Rightarrow> 'a \<Rightarrow> 'a list \<Rightarrow> 'a list" where
  "insort_desc key x [] = [x]"
| "insort_desc key x (y # ys) =
     (if key x < key y then y # insort_desc key x ys else x # y # ys)"

definition sorted_reverse :: "('a \<Rightarrow> pyfloat) \<Rightarrow> 'a list \<Rightarrow> 'a list" where
  "sorted_reverse key xs = foldr (insort_desc key) xs []"

definition suggest_best_crops ::
  "string list \<Rightarrow> dict \<Rightarrow> pyfloat \<Rightarrow> pyfloat \<Rightarrow> suggestion list" where
  "suggest_best_crops ALL_CROPS data user_price base_yield =
     (let suggestions = map (candidate data user_price base_yield) ALL_CROPS;
          suggestions = sorted_reverse Profit suggestions;
          profitable = filter (\<lambda>c. Profit c > Fin 0) suggestions
      in if profitable \<noteq> [] then take 3 profitable else [])"

section \<open>The prediction request\<close>

text \<open>Python's truth value of a JSON value, and \<^verbatim>\<open>a or b\<close>, which is \<open>a\<close> if \<open>a\<close> is true.\<close>

fun truthy :: "json \<Rightarrow> bool" where
  "truthy JNull = False"
| "truthy (JBool b) = b"
| "truthy (JInt n) = (n \<noteq> 0)"
| "truthy (JNum x) = (x \<noteq> Fin 0)"
| "truthy (JStr s) = (s \<noteq> [])"
| "truthy (JArr xs) = (xs \<noteq> [])"
| "truthy (JObj kvs) = (kvs \<noteq> [])"

definition py_or :: "json \<Rightarrow> json \<Rightarrow> json" where
  "py_or a b = (if truthy a then a else b)"

text \<open>
  One line of the key normalisation,
  \<^verbatim>\<open>data[short] = to_float(data.get(short) or data.get(verbose))\<close>:
  the value it computes, and the four lines with the \<^verbatim>\<open>seed\<close> fix that follows them.
  The handler updates the request dictionary in place; the model returns the new one.
\<close>

definition cost_value :: "dict \<Rightarrow> string \<Rightarrow> string \<Rightarrow> pyfloat" where
  "cost_value data short verbose = to_float (py_or (dict_get data short) (dict_get data verbose))"

definition normalize_costs :: "dict \<Rightarrow> dict" where
  "normalize_costs data =
     (let data = data(''fertilizer'' \<mapsto>
                   JNum (cost_value data ''fertilizer'' ''Fertilizer_Usage_kg_per_hectare''));
          data = data(''pesticide'' \<mapsto>
                   JNum (cost_value data ''pesticide'' ''Pesticide_Usage_litre_per_hectare''));
          data = data(''seed'' \<mapsto>
                   JNum (cost_value data ''seed'' ''Seed_Expense_per_hectare(INR)''));
          data = data(''other'' \<mapsto>
                   JNum (cost_value data ''other'' ''Other_Expense(INR)''))
      in if (case data ''seed'' of None \<Rightarrow> True | Some v \<Rightarrow> v = JStr [] \<or> v = JNull)
         then data(''seed'' \<mapsto> JInt 0)
         else data)"

text \<open>The one-row frame \<^verbatim>\<open>X\<close> given to the crop and yield predictors, as the row of its
  seven columns.\<close>

definition ml_input :: "dict \<Rightarrow> error + pyfloat list" where
  "ml_input data =
     bind (getitem data ''N'') (\<lambda>N.
     bind (getitem data ''P'') (\<lambda>P.
     bind (getitem data ''K'') (\<lambda>K.
     bind (getitem data ''temperature'') (\<lambda>temperature.
     bind (getitem data ''humidity'') (\<lambda>humidity.
     bind (getitem data ''ph'') (\<lambda>ph.
     bind (getitem data ''rainfall'') (\<lambda>rainfall.
       Inr [to_float N, to_float P, to_float K, to_float temperature,
            to_float humidity, to_float ph, to_float rainfall])))))))"

text \<open>
  The trained predictors are loaded from files and are opaque: they are parameters of
  the model, total functions from a row to a prediction. \<open>label_encoder\<close> is the
  decoder \<^verbatim>\<open>inverse_transform\<close>.
\<close>

record models =
  rf_crop :: "pyfloat list \<Rightarrow> nat"
  label_encoder :: "nat \<Rightarrow> string"
  rf_yield :: "pyfloat list \<Rightarrow> pyfloat"
  rf_expense :: "pyfloat list \<Rightarrow> pyfloat"

text \<open>
  The response, with the numbers as they are before they are formatted to two
  decimals. The fields are the keys of the JSON response; \<open>Net_Profit\<close> is the key
  \<^verbatim>\<open>Profit\<close>, which a suggestion has too.
\<close>

record response =
  Predicted_Crop :: string
  Predicted_Yield :: pyfloat
  Total_Expense :: pyfloat
  Predicted_Revenue :: pyfloat
  Net_Profit :: pyfloat
  Loss :: pyfloat
  Best_Crops :: "suggestion list"
  show_suggestions :: bool

text \<open>
  \<^verbatim>\<open>api_predict_all\<close>. An exception anywhere in the body is caught by the handler,
  which answers with status 500 and no result: the \<open>Inl\<close> branch. The four cost
  entries are floats when the expense predictor reads them, so \<open>to_float\<close> is the
  identity on them.
\<close>

definition api_predict_all :: "models \<Rightarrow> string list \<Rightarrow> dict \<Rightarrow> error + response" where
  "api_predict_all M ALL_CROPS request_json =
     (let data = normalize_costs request_json in
      bind (ml_input data) (\<lambda>X.
      let crop_encoded = rf_crop M X;
          crop_raw = lower (label_encoder M crop_encoded) in
      bind (check_crop_failure data) (\<lambda>failure.
      bind (if failure then Inr ''Crop Failure''
            else adjust_to_valid_crop crop_raw ALL_CROPS) (\<lambda>crop_final.
      let raw_yield = rf_yield M X in
      bind (check_crop_failure data) (\<lambda>failure.
      bind (if failure then Inr (Fin 1) else apply_yield_correction raw_yield data) (\<lambda>predicted_yield.
      bind (getitem data ''fertilizer'') (\<lambda>fertilizer.
      bind (getitem data ''pesticide'') (\<lambda>pesticide.
      bind (getitem data ''seed'') (\<lambda>seed.
      bind (getitem data ''other'') (\<lambda>other.
      let raw_exp = rf_expense M
            [to_float fertilizer, to_float pesticide, to_float seed, to_float other] in
      bind (apply_expense_correction raw_exp data) (\<lambda>predicted_expense.
      bind (getitem data ''market_price'') (\<lambda>market_price.
      let price = to_float market_price;
          revenue = predicted_yield * price;
          profit = py_max (revenue - predicted_expense) (Fin 0);
          loss = py_max (predicted_expense - revenue) (Fin 0);
          best = (if profit > Fin 0
                  then suggest_best_crops ALL_CROPS data price predicted_yield
                  else [])
      in Inr \<lparr>Predicted_Crop = crop_final,
              Predicted_Yield = predicted_yield,
              Total_Expense = predicted_expense,
              Predicted_Revenue = revenue,
              Net_Profit = profit,
              Loss = loss,
              Best_Crops = best,
              show_suggestions = (profit > Fin 0)\<rparr>))))))))))))"

section \<open>Sample requests\<close>

text \<open>A request with a low rainfall and a low potassium reading, given as a string.\<close>

definition dry_request :: dict where
  "dry_request =
     [''N'' \<mapsto> JInt 50, ''P'' \<mapsto> JInt 50, ''K'' \<mapsto> JStr ''12'',
      ''temperature'' \<mapsto> JInt 30, ''humidity'' \<mapsto> JInt 60, ''ph'' \<mapsto> JNum (Fin 6.5),
      ''rainfall'' \<mapsto> JInt 10, ''market_price'' \<mapsto> JInt 10]"

text \<open>A request on which only the temperature is extreme, and the same request with a
  market price that is the string \<^verbatim>\<open>nan\<close>.\<close>

definition mild_request :: dict where
  "mild_request =
     [''N'' \<mapsto> JInt 50, ''P'' \<mapsto> JInt 50, ''K'' \<mapsto> JInt 50,
      ''temperature'' \<mapsto> JInt 46, ''humidity'' \<mapsto> JInt 60, ''ph'' \<mapsto> JNum (Fin 6.5),
      ''rainfall'' \<mapsto> JInt 100, ''market_price'' \<mapsto> JInt 10]"

definition nan_price_request :: dict where
  "nan_price_request = mild_request(''market_price'' \<mapsto> JStr ''nan'')"

text \<open>Cost inputs and a catalog in which banana and cauliflower have the same factor.\<close>

definition cost_inputs :: dict where
  "cost_inputs =
     [''fertilizer'' \<mapsto> JInt 5, ''pesticide'' \<mapsto> JInt 1, ''seed'' \<mapsto> JInt 200,
      ''other'' \<mapsto> JInt 50]"

definition sample_catalog :: "string list" where
  "sample_catalog = [''banana'', ''cauliflower'', ''maize'', ''rice'', ''sugarcane'']"

text \<open>The request of five extremes, and a request without the nitrogen field.\<close>

definition hot_dry_request :: dict where
  "hot_dry_request =
     [''N'' \<mapsto> JInt 10, ''P'' \<mapsto> JInt 10, ''K'' \<mapsto> JInt 10,
      ''temperature'' \<mapsto> JInt 50, ''humidity'' \<mapsto> JInt 60, ''ph'' \<mapsto> JInt 4,
      ''rainfall'' \<mapsto> JInt 10, ''market_price'' \<mapsto> JInt 10]"

definition no_nitrogen_request :: dict where
  "no_nitrogen_request =
     [''P'' \<mapsto> JInt 50, ''K'' \<mapsto> JInt 50,
      ''temperature'' \<mapsto> JInt 30, ''humidity'' \<mapsto> JInt 60, ''ph'' \<mapsto> JNum (Fin 6.5),
      ''rainfall'' \<mapsto> JInt 100, ''market_price'' \<mapsto> JInt 10]"

text \<open>Cost entries under both spellings, the short fertilizer entry being the number 0.\<close>

definition both_keys_request :: dict where
  "both_keys_request =
     [''fertilizer'' \<mapsto> JInt 0, ''Fertilizer_Usage_kg_per_hectare'' \<mapsto> JInt 50,
      ''seed'' \<mapsto> JStr ''200'', ''Seed_Expense_per_hectare(INR)'' \<mapsto> JInt 999,
      ''Other_Expense(INR)'' \<mapsto> JInt 75]"

text \<open>Predictors that answer the label Rice, the yield 1000 and the expense 2000.\<close>

definition sample_models :: models where
  "sample_models =
     \<lparr>rf_crop = (\<lambda>X. 0), label_encoder = (\<lambda>n. ''Rice''),
      rf_yield = (\<lambda>X. Fin 1000), rf_expense = (\<lambda>X. Fin 2000)\<rparr>"

text \<open>The columns of the frame \<^verbatim>\<open>X\<close>.\<close>

definition feature_keys :: "string list" where
  "feature_keys = [''N'', ''P'', ''K'', ''temperature'', ''humidity'', ''ph'', ''rainfall'']"

section \<open>Basic facts\<close>

subsection \<open>The order and the arithmetic of floats\<close>

lemma le_Fin [simp]: "(Fin a \<le> Fin b) = (a \<le> b)"
  by (auto simp: less_eq_pyfloat_def)

lemma le_PInf [simp]: "(x \<le> PInf) = (\<not> is_nan x)"
  by (cases x) (simp_all add: less_eq_pyfloat_def)

lemma NInf_le [simp]: "(NInf \<le> x) = (\<not> is_nan x)"
  by (cases x) (simp_all add: less_eq_pyfloat_def)

lemma PInf_le [simp]: "(PInf \<le> x) = (x = PInf)"
  by (cases x) (simp_all add: less_eq_pyfloat_def)

lemma le_NInf [simp]: "(x \<le> NInf) = (x = NInf)"
  by (cases x) (simp_all add: less_eq_pyfloat_def)

lemma NaN_le [simp]: "(NaN \<le> x) = False"
  by (simp add: less_eq_pyfloat_def)

lemma le_NaN [simp]: "(x \<le> NaN) = False"
  by (cases x) (simp_all add: less_eq_pyfloat_def)

lemma less_NaN [simp]: "(x < NaN) = False"
  by (cases x) simp_all

lemma float_less_irrefl [simp]: "\<not> (x :: pyfloat) < x"
  by (cases x) simp_all

lemma float_not_less: "\<not> is_nan x \<Longrightarrow> \<not> is_nan y \<Longrightarrow> (\<not> x < y) = (y \<le> x)"
  by (cases x; cases y) auto

lemma float_less_not_nan: "(x :: pyfloat) < y \<Longrightarrow> \<not> is_nan x \<and> \<not> is_nan y"
  by (cases x; cases y) simp_all

lemma float_le_not_nan: "(x :: pyfloat) \<le> y \<Longrightarrow> \<not> is_nan x \<and> \<not> is_nan y"
  by (cases x; cases y) simp_all

lemma float_le_refl: "\<not> is_nan x \<Longrightarrow> x \<le> x"
  by (cases x) simp_all

lemma float_le_trans: "(x :: pyfloat) \<le> y \<Longrightarrow> y \<le> z \<Longrightarrow> x \<le> z"
  by (cases x; cases y; cases z) simp_all

lemma float_less_imp_le: "(x :: pyfloat) < y \<Longrightarrow> x \<le> y"
  by (simp add: less_eq_pyfloat_def)

lemma minus_Fin [simp]: "Fin a - Fin b = Fin (a - b)"
  by (simp add: minus_pyfloat_def)

lemma bind_Inr: "bind (Inr x) f = f x"
  by (simp add: bind_def)

lemma bind_Inl: "bind (Inl e) f = Inl e"
  by (simp add: bind_def)

lemma getitem_Some: "data k = Some v \<Longrightarrow> getitem data k = Inr v"
  by (simp add: getitem_def)

lemma getitem_None: "data k = None \<Longrightarrow> getitem data k = Inl (KeyError k)"
  by (simp add: getitem_def)

lemmas float_eval = to_float_def float_of_string_def strip_def is_space_def is_digit_def
  split_sign_def digits_val_def float_of_exponent_def decimal_of_string_def inf_or_nan_def
  lower_def char_lower_def float_of_real_def float_overflow_def

section \<open>The failure detector\<close>

lemma count_extreme_eq:
  "count_extreme temp ph rain N P K =
     length (filter (\<lambda>b. b)
       [temp > Fin 45, rain < Fin 20, ph < Fin 5, N < Fin 20, P < Fin 15, K < Fin 15])"
  by (simp add: count_extreme_def)

lemma check_crop_failure_present:
  assumes "data ''temperature'' = Some temp" and "data ''ph'' = Some ph"
    and "data ''rainfall'' = Some rain" and "data ''N'' = Some N"
    and "data ''P'' = Some P" and "data ''K'' = Some K"
  shows "check_crop_failure data =
           Inr (count_extreme (to_float temp) (to_float ph) (to_float rain)
                  (to_float N) (to_float P) (to_float K) \<ge> 2)"
  using assms by (simp add: check_crop_failure_def getitem_Some bind_Inr)

text \<open>
  Claim C1. On a request that holds the six fields the detector reads, it returns
  true exactly when at least two of the six conditions temperature > 45,
  rainfall < 20, pH < 5, N < 20, P < 15, K < 15 hold of the converted values; so
  with none or one of them holding it returns false.
\<close>

theorem check_crop_failure_iff:
  assumes "data ''temperature'' = Some temp" and "data ''ph'' = Some ph"
    and "data ''rainfall'' = Some rain" and "data ''N'' = Some N"
    and "data ''P'' = Some P" and "data ''K'' = Some K"
  shows "check_crop_failure data =
           Inr (2 \<le> length (filter (\<lambda>b. b)
                  [to_float temp > Fin 45, to_float rain < Fin 20, to_float ph < Fin 5,
                   to_float N < Fin 20, to_float P < Fin 15, to_float K < Fin 15]))"
  using check_crop_failure_present [OF assms] by (simp only: count_extreme_eq)

theorem check_crop_failure_iff_witness:
  "check_crop_failure dry_request = Inr True \<and>
   check_crop_failure (dry_request(''K'' \<mapsto> JInt 40)) = Inr False \<and>
   check_crop_failure (dry_request(''K'' \<mapsto> JStr ''nan'')) = Inr False"
  using check_crop_failure_iff [of dry_request "JInt 30" "JNum (Fin 6.5)" "JInt 10" "JInt 50"
      "JInt 50" "JStr ''12''"]
    check_crop_failure_iff [of "dry_request(''K'' \<mapsto> JInt 40)" "JInt 30" "JNum (Fin 6.5)"
      "JInt 10" "JInt 50" "JInt 50" "JInt 40"]
    check_crop_failure_iff [of "dry_request(''K'' \<mapsto> JStr ''nan'')" "JInt 30"
      "JNum (Fin 6.5)" "JInt 10" "JInt 50" "JInt 50" "JStr ''nan''"]
  by (simp add: dry_request_def float_eval)

section \<open>The correction factors\<close>

lemma yield_corr_bounds:
  "Fin 0 < yield_corr temp ph rain humidity N P K \<and>
   yield_corr temp ph rain humidity N P K \<le> Fin 1"
  by (simp add: yield_corr_def Let_def)

lemma expense_corr_bounds:
  "Fin 1 \<le> expense_corr temp rain humidity \<and> is_finite (expense_corr temp rain humidity)"
  by (simp add: expense_corr_def Let_def)

lemma times_unit_le:
  assumes "Fin 0 \<le> x" and "Fin 0 < m" and "m \<le> Fin 1"
  shows "x * m \<le> x"
proof -
  from assms(2,3) obtain m' where m: "m = Fin m'" "0 < m'" "m' \<le> 1"
    by (cases m) simp_all
  show ?thesis
  proof (cases x)
    case (Fin r)
    with assms(1) m have "r * m' \<le> r * 1"
      by (intro mult_left_mono) simp_all
    with Fin m show ?thesis by simp
  qed (use assms(1) m in \<open>simp_all add: inf_of_sign_def\<close>)
qed

lemma le_times_ge_1:
  assumes "Fin 0 \<le> x" and "Fin 1 \<le> k" and "is_finite k"
  shows "x \<le> x * k"
proof -
  from assms(2,3) obtain k' where k: "k = Fin k'" "1 \<le> k'"
    by (cases k) simp_all
  show ?thesis
  proof (cases x)
    case (Fin r)
    with assms(1) k have "r * 1 \<le> r * k'"
      by (intro mult_left_mono) simp_all
    with Fin k show ?thesis by simp
  qed (use assms(1) k in \<open>simp_all add: inf_of_sign_def\<close>)
qed

lemma apply_yield_correction_present:
  assumes "data ''temperature'' = Some temp" and "data ''ph'' = Some ph"
    and "data ''rainfall'' = Some rain" and "data ''humidity'' = Some humidity"
    and "data ''N'' = Some N" and "data ''P'' = Some P" and "data ''K'' = Some K"
  shows "apply_yield_correction raw_yield data =
           Inr (raw_yield * yield_corr (to_float temp) (to_float ph) (to_float rain)
                  (to_float humidity) (to_float N) (to_float P) (to_float K))"
  using assms by (simp add: apply_yield_correction_def getitem_Some bind_Inr)

lemma apply_expense_correction_present:
  assumes "data ''temperature'' = Some temp" and "data ''rainfall'' = Some rain"
    and "data ''humidity'' = Some humidity"
  shows "apply_expense_correction expense data =
           Inr (expense * expense_corr (to_float temp) (to_float rain) (to_float humidity))"
  using assms by (simp add: apply_expense_correction_def getitem_Some bind_Inr)

text \<open>
  Claim C4, as stated, at a negative raw yield: the corrected yield of \<open>- 100\<close> at
  46 degrees is \<open>- 30\<close>, which is above the raw value.
\<close>

theorem correction_bounds_counterexample:
  "apply_yield_correction (Fin (- 100)) mild_request = Inr (Fin (- 30)) \<and>
   \<not> (Fin (- 30) \<le> Fin (- 100))"
  by (simp add: apply_yield_correction_def getitem_def bind_def mild_request_def
      yield_corr_def to_float_def float_overflow_def)

text \<open>
  Claim C4, amended. On a request that holds the seven fields, the yield multiplier
  lies in (0, 1] and the expense multiplier is at least 1; for a raw yield that is
  not negative the corrected yield is at most the raw yield, and for a raw expense
  that is not negative the corrected expense is at least the raw expense.
\<close>

theorem correction_bounds:
  assumes "data ''temperature'' = Some temp" and "data ''ph'' = Some ph"
    and "data ''rainfall'' = Some rain" and "data ''humidity'' = Some humidity"
    and "data ''N'' = Some N" and "data ''P'' = Some P" and "data ''K'' = Some K"
    and "Fin 0 \<le> raw_yield" and "Fin 0 \<le> expense"
  defines "m \<equiv> yield_corr (to_float temp) (to_float ph) (to_float rain)
                 (to_float humidity) (to_float N) (to_float P) (to_float K)"
    and "k \<equiv> expense_corr (to_float temp) (to_float rain) (to_float humidity)"
  shows "apply_yield_correction raw_yield data = Inr (raw_yield * m) \<and>
         Fin 0 < m \<and> m \<le> Fin 1 \<and> raw_yield * m \<le> raw_yield \<and>
         apply_expense_correction expense data = Inr (expense * k) \<and>
         Fin 1 \<le> k \<and> expense \<le> expense * k"
proof -
  have y: "apply_yield_correction raw_yield data = Inr (raw_yield * m)"
    unfolding m_def using assms(1-7) by (rule apply_yield_correction_present)
  have e: "apply_expense_correction expense data = Inr (expense * k)"
    unfolding k_def using assms(1,3,4) by (rule apply_expense_correction_present)
  have m: "Fin 0 < m" "m \<le> Fin 1"
    unfolding m_def using yield_corr_bounds by blast+
  have k: "Fin 1 \<le> k" "is_finite k"
    unfolding k_def using expense_corr_bounds by blast+
  have "raw_yield * m \<le> raw_yield"
    using \<open>Fin 0 \<le> raw_yield\<close> m by (rule times_unit_le)
  moreover have "expense \<le> expense * k"
    using \<open>Fin 0 \<le> expense\<close> k by (rule le_times_ge_1)
  ultimately show ?thesis
    using y e m k by simp
qed

theorem correction_bounds_witness:
  "apply_yield_correction (Fin 1000) mild_request = Inr (Fin 300) \<and>
   apply_expense_correction (Fin 2000) mild_request = Inr (Fin 2400) \<and>
   apply_yield_correction PInf mild_request = Inr PInf"
  using correction_bounds [of mild_request "JInt 46" "JNum (Fin 6.5)" "JInt 100" "JInt 60"
      "JInt 50" "JInt 50" "JInt 50" "Fin 1000" "Fin 2000"]
    correction_bounds [of mild_request "JInt 46" "JNum (Fin 6.5)" "JInt 100" "JInt 60"
      "JInt 50" "JInt 50" "JInt 50" PInf "Fin 2000"]
  by (simp add: mild_request_def yield_corr_def expense_corr_def to_float_def
      float_overflow_def inf_of_sign_def)

section \<open>The crop name resolver\<close>

lemma first_match_find: "first_match p vs = find (\<lambda>v. str_in (take 3 p) v) vs"
  by (induction vs) simp_all

lemma first_match_mem: "first_match p vs = Some v \<Longrightarrow> v \<in> set vs"
  by (induction vs) (auto split: if_splits)

lemmas str_eval = lower_def char_lower_def strip_def is_space_def

text \<open>
  Claim C5. On a catalog that is not empty the resolver returns without an error, its
  result is the one its specification describes (the lowercased, trimmed label if
  that is in the catalog, else the first entry that contains the first three
  characters of the lowercased, trimmed label, else the first entry), and the result
  is in the catalog.
\<close>

theorem adjust_to_valid_crop_member:
  assumes "catalog \<noteq> []"
  shows "adjust_to_valid_crop x catalog = Inr (resolve_spec x catalog) \<and>
         resolve_spec x catalog \<in> set catalog"
proof -
  let ?y = "strip (lower x)"
  show ?thesis
  proof (cases "?y \<in> set catalog")
    case True
    then show ?thesis
      by (simp add: adjust_to_valid_crop_def resolve_spec_def)
  next
    case False
    show ?thesis
    proof (cases "first_match ?y catalog")
      case None
      from assms obtain v0 vs where "catalog = v0 # vs"
        by (cases catalog) auto
      with None False show ?thesis
        unfolding adjust_to_valid_crop_def resolve_spec_def Let_def
          first_match_find [symmetric]
        by (simp del: first_match.simps)
    next
      case (Some v)
      then have "v \<in> set catalog"
        by (rule first_match_mem)
      with Some False show ?thesis
        unfolding adjust_to_valid_crop_def resolve_spec_def Let_def
          first_match_find [symmetric]
        by simp
    qed
  qed
qed

theorem adjust_to_valid_crop_member_witness:
  "adjust_to_valid_crop '' Ricx'' [''maize'', ''rice''] = Inr ''rice'' \<and>
   adjust_to_valid_crop ''rice'' [''maize'', ''rice''] = Inr ''rice'' \<and>
   adjust_to_valid_crop ''oats'' [''maize'', ''rice''] = Inr ''maize''"
  using adjust_to_valid_crop_member [of "[''maize'', ''rice'']" "'' Ricx''"]
    adjust_to_valid_crop_member [of "[''maize'', ''rice'']" "''rice''"]
    adjust_to_valid_crop_member [of "[''maize'', ''rice'']" "''oats''"]
  by (simp add: resolve_spec_def str_eval)

section \<open>The suggestion ranker\<close>

lemma set_insort_desc: "set (insort_desc key x ys) = insert x (set ys)"
  by (induction ys) auto

lemma sorted_reverse_Cons:
  "sorted_reverse key (x # xs) = insort_desc key x (sorted_reverse key xs)"
  by (simp add: sorted_reverse_def)

lemma sorted_reverse_set: "set (sorted_reverse key xs) = set xs"
  by (induction xs) (simp_all add: sorted_reverse_def set_insort_desc)

lemma filter_insort_desc:
  "filter (\<lambda>c. key c = v) (insort_desc key x ys) =
     (if key x = v then x # filter (\<lambda>c. key c = v) ys else filter (\<lambda>c. key c = v) ys)"
  by (induction ys) auto

lemma sorted_reverse_stable:
  "filter (\<lambda>c. key c = v) (sorted_reverse key xs) = filter (\<lambda>c. key c = v) xs"
  by (induction xs) (simp_all add: sorted_reverse_def filter_insort_desc)

lemma sorted_insort_desc:
  assumes "sorted_wrt (\<lambda>a b. key b \<le> key a) ys" and "\<not> is_nan (key x)"
    and "\<forall>y \<in> set ys. \<not> is_nan (key y)"
  shows "sorted_wrt (\<lambda>a b. key b \<le> key a) (insort_desc key x ys)"
  using assms
proof (induction ys)
  case Nil
  then show ?case by simp
next
  case (Cons y ys)
  show ?case
  proof (cases "key x < key y")
    case True
    then have "key x \<le> key y"
      by (rule float_less_imp_le)
    moreover have "\<forall>z \<in> set ys. key z \<le> key y"
      using Cons.prems(1) by simp
    ultimately show ?thesis
      using True Cons by (auto simp: set_insort_desc)
  next
    case False
    then have yx: "key y \<le> key x"
      using Cons.prems(2,3) by (simp add: float_not_less)
    have "\<forall>z \<in> set ys. key z \<le> key x"
      using Cons.prems(1) yx by (auto intro: float_le_trans)
    then show ?thesis
      using False yx Cons.prems(1) by simp
  qed
qed

lemma sorted_reverse_descending:
  assumes "\<forall>x \<in> set xs. \<not> is_nan (key x)"
  shows "sorted_wrt (\<lambda>a b. key b \<le> key a) (sorted_reverse key xs)"
  using assms
proof (induction xs)
  case Nil
  then show ?case by (simp add: sorted_reverse_def)
next
  case (Cons x xs)
  then show ?case
    by (simp add: sorted_reverse_Cons sorted_insort_desc sorted_reverse_set)
qed

lemma sorted_wrt_filter_take:
  "sorted_wrt R xs \<Longrightarrow> sorted_wrt R (take n (filter Q xs))"
  by (simp add: sorted_wrt_filter sorted_wrt_take)

text \<open>The profits of the candidates of one call are all NaN or none of them is.\<close>

lemma crop_factor_pos: "\<exists>f. crop_factor crop = Fin f \<and> 0 < f"
proof -
  have "0 < (case map_of CROP_FACTOR crop of Some f \<Rightarrow> f | None \<Rightarrow> 0.75)"
  proof (cases "map_of CROP_FACTOR crop")
    case None
    then show ?thesis by simp
  next
    case (Some f)
    then have "(crop, f) \<in> set CROP_FACTOR"
      by (rule map_of_SomeD)
    then have "0 < f"
      by (auto simp: CROP_FACTOR_def)
    with Some show ?thesis by simp
  qed
  then show ?thesis
    unfolding crop_factor_def by blast
qed

lemma candidate_Profit:
  "Profit (candidate data user_price base_yield crop) =
     base_yield * crop_factor crop * user_price - fixed_expense data"
  by (simp add: candidate_def Let_def)

lemma is_nan_profit_uniform:
  assumes "0 < f" and "0 < g"
  shows "is_nan (b * Fin f * p - e) = is_nan (b * Fin g * p - e)"
  using assms
  by (cases b; cases p; cases e)
    (auto simp: minus_pyfloat_def inf_of_sign_def sgn_real_def zero_less_mult_iff
      mult_less_0_iff split: if_splits)

lemma candidate_nan_uniform:
  "is_nan (Profit (candidate data user_price base_yield a)) =
   is_nan (Profit (candidate data user_price base_yield b))"
proof -
  obtain f g where "crop_factor a = Fin f" "0 < f" "crop_factor b = Fin g" "0 < g"
    using crop_factor_pos by blast
  then show ?thesis
    by (simp add: candidate_Profit is_nan_profit_uniform [of f g])
qed

lemma suggest_best_crops_eq:
  "suggest_best_crops ALL_CROPS data user_price base_yield =
     take 3 (filter (\<lambda>c. Profit c > Fin 0)
       (sorted_reverse Profit (map (candidate data user_price base_yield) ALL_CROPS)))"
  by (simp add: suggest_best_crops_def Let_def)

lemma positive_sorted:
  fixes ALL_CROPS data user_price base_yield
  defines "cands \<equiv> map (candidate data user_price base_yield) ALL_CROPS"
  shows "sorted_wrt (\<lambda>a b. Profit b \<le> Profit a)
           (filter (\<lambda>c. Profit c > Fin 0) (sorted_reverse Profit cands))"
proof (cases "\<exists>c \<in> set cands. is_nan (Profit c)")
  case True
  then obtain a where "a \<in> set ALL_CROPS"
    "is_nan (Profit (candidate data user_price base_yield a))"
    by (auto simp: cands_def)
  then have "\<forall>c \<in> set cands. is_nan (Profit c)"
    using candidate_nan_uniform [of data user_price base_yield a] by (auto simp: cands_def)
  then have "\<forall>c \<in> set (sorted_reverse Profit cands). \<not> Profit c > Fin 0"
    by (auto simp: sorted_reverse_set dest: float_less_not_nan)
  then have "filter (\<lambda>c. Profit c > Fin 0) (sorted_reverse Profit cands) = []"
    by (simp add: filter_empty_conv)
  then show ?thesis by simp
next
  case False
  then have "sorted_wrt (\<lambda>a b. Profit b \<le> Profit a) (sorted_reverse Profit cands)"
    by (intro sorted_reverse_descending) simp
  then show ?thesis
    by (rule sorted_wrt_filter)
qed

lemma ties_keep_order:
  "prefix (filter (\<lambda>c. key c = v) (take n (filter (\<lambda>c. key c > Fin 0) (sorted_reverse key xs))))
          (filter (\<lambda>c. key c = v) xs)"
proof -
  have "prefix (filter (\<lambda>c. key c = v) (take n (filter (\<lambda>c. key c > Fin 0) (sorted_reverse key xs))))
          (filter (\<lambda>c. key c = v) (filter (\<lambda>c. key c > Fin 0) (sorted_reverse key xs)))"
    by (rule filter_mono_prefix) (rule take_is_prefix)
  also have "filter (\<lambda>c. key c = v) (filter (\<lambda>c. key c > Fin 0) (sorted_reverse key xs)) =
             filter (\<lambda>c. key c > Fin 0) (filter (\<lambda>c. key c = v) (sorted_reverse key xs))"
    by (simp add: conj_commute)
  also have "\<dots> = filter (\<lambda>c. key c > Fin 0) (filter (\<lambda>c. key c = v) xs)"
    by (simp only: sorted_reverse_stable)
  also have "\<dots> = (if v > Fin 0 then filter (\<lambda>c. key c = v) xs else [])"
    by (induction xs) auto
  finally show ?thesis
    by (simp split: if_splits)
qed

lemmas suggest_eval = candidate_def crop_factor_def CROP_FACTOR_def fixed_expense_def
  dict_get_def to_float_def float_overflow_def cost_inputs_def minus_pyfloat_def

lemma sample_suggestions:
  "suggest_best_crops sample_catalog cost_inputs (Fin 10) (Fin 500) =
     [\<lparr>Crop = ''rice'', Yield = Fin 390, Profit = Fin 3330\<rparr>,
      \<lparr>Crop = ''maize'', Yield = Fin 360, Profit = Fin 3030\<rparr>,
      \<lparr>Crop = ''banana'', Yield = Fin 350, Profit = Fin 2930\<rparr>]"
  by (simp add: suggest_best_crops_def sorted_reverse_def sample_catalog_def suggest_eval)

lemma sample_candidates:
  "map (candidate cost_inputs (Fin 10) (Fin 500)) sample_catalog =
     [\<lparr>Crop = ''banana'', Yield = Fin 350, Profit = Fin 2930\<rparr>,
      \<lparr>Crop = ''cauliflower'', Yield = Fin 350, Profit = Fin 2930\<rparr>,
      \<lparr>Crop = ''maize'', Yield = Fin 360, Profit = Fin 3030\<rparr>,
      \<lparr>Crop = ''rice'', Yield = Fin 390, Profit = Fin 3330\<rparr>,
      \<lparr>Crop = ''sugarcane'', Yield = Fin 320, Profit = Fin 2630\<rparr>]"
  by (simp add: sample_catalog_def suggest_eval)

text \<open>
  Claim C3. The list of suggestions is sorted by profit in non-increasing order, has
  at most three entries, each a candidate with a profit above 0, and is empty when no
  candidate has a profit above 0. Ties keep the catalog order: for every profit
  value, the suggestions with that profit are an initial segment of the candidates
  with that profit, in the order of the catalog.
\<close>

theorem suggest_best_crops_ranked:
  fixes ALL_CROPS data user_price base_yield
  defines "cands \<equiv> map (candidate data user_price base_yield) ALL_CROPS"
    and "out \<equiv> suggest_best_crops ALL_CROPS data user_price base_yield"
  shows "sorted_wrt (\<lambda>a b. Profit a \<ge> Profit b) out \<and>
         length out \<le> 3 \<and>
         (\<forall>c \<in> set out. Profit c > Fin 0 \<and> c \<in> set cands) \<and>
         ((\<forall>c \<in> set cands. \<not> Profit c > Fin 0) \<longrightarrow> out = []) \<and>
         (\<forall>v. prefix (filter (\<lambda>c. Profit c = v) out) (filter (\<lambda>c. Profit c = v) cands))"
proof -
  have out: "out = take 3 (filter (\<lambda>c. Profit c > Fin 0) (sorted_reverse Profit cands))"
    unfolding out_def cands_def by (rule suggest_best_crops_eq)
  have s: "sorted_wrt (\<lambda>a b. Profit a \<ge> Profit b) out"
    unfolding out cands_def by (rule sorted_wrt_take) (rule positive_sorted)
  have l: "length out \<le> 3"
    unfolding out by simp
  have sub: "set out \<subseteq> set (filter (\<lambda>c. Profit c > Fin 0) (sorted_reverse Profit cands))"
    unfolding out by (rule set_take_subset)
  have p: "\<forall>c \<in> set out. Profit c > Fin 0 \<and> c \<in> set cands"
    using sub by (auto simp: sorted_reverse_set)
  have e: "(\<forall>c \<in> set cands. \<not> Profit c > Fin 0) \<longrightarrow> out = []"
    unfolding out by (simp add: filter_empty_conv sorted_reverse_set)
  have t: "\<forall>v. prefix (filter (\<lambda>c. Profit c = v) out) (filter (\<lambda>c. Profit c = v) cands)"
    unfolding out by (simp add: ties_keep_order)
  from s l p e t show ?thesis
    by blast
qed

theorem suggest_best_crops_ranked_witness:
  "sorted_wrt (\<lambda>a b. Profit a \<ge> Profit b)
     [\<lparr>Crop = ''rice'', Yield = Fin 390, Profit = Fin 3330\<rparr>,
      \<lparr>Crop = ''maize'', Yield = Fin 360, Profit = Fin 3030\<rparr>,
      \<lparr>Crop = ''banana'', Yield = Fin 350, Profit = Fin 2930\<rparr>] \<and>
   prefix [\<lparr>Crop = ''banana'', Yield = Fin 350, Profit = Fin 2930\<rparr>]
     [\<lparr>Crop = ''banana'', Yield = Fin 350, Profit = Fin 2930\<rparr>,
      \<lparr>Crop = ''cauliflower'', Yield = Fin 350, Profit = Fin 2930\<rparr>] \<and>
   (suggest_best_crops sample_catalog cost_inputs (Fin 1) (Fin 500) = []) \<and>
   (suggest_best_crops sample_catalog cost_inputs NaN (Fin 500) = [])"
proof -
  have a: "sorted_wrt (\<lambda>a b. Profit a \<ge> Profit b)
             (suggest_best_crops sample_catalog cost_inputs (Fin 10) (Fin 500))"
    and b: "prefix (filter (\<lambda>c. Profit c = Fin 2930)
                      (suggest_best_crops sample_catalog cost_inputs (Fin 10) (Fin 500)))
              (filter (\<lambda>c. Profit c = Fin 2930)
                 (map (candidate cost_inputs (Fin 10) (Fin 500)) sample_catalog))"
    using suggest_best_crops_ranked [of sample_catalog cost_inputs "Fin 10" "Fin 500"] by blast+
  have "\<forall>c \<in> set (map (candidate cost_inputs (Fin 1) (Fin 500)) sample_catalog).
          \<not> Profit c > Fin 0"
    by (simp add: sample_catalog_def suggest_eval)
  then have c: "suggest_best_crops sample_catalog cost_inputs (Fin 1) (Fin 500) = []"
    using suggest_best_crops_ranked [of sample_catalog cost_inputs "Fin 1" "Fin 500"] by blast
  have "\<forall>c \<in> set (map (candidate cost_inputs NaN (Fin 500)) sample_catalog).
          \<not> Profit c > Fin 0"
    by (simp add: sample_catalog_def suggest_eval)
  then have d: "suggest_best_crops sample_catalog cost_inputs NaN (Fin 500) = []"
    using suggest_best_crops_ranked [of sample_catalog cost_inputs NaN "Fin 500"] by blast
  from a b c d show ?thesis
    by (simp add: sample_suggestions sample_candidates)
qed

lemma profit_mono_Fin:
  fixes a q f g e :: real
  assumes "0 < a * q" and "f \<le> g"
  shows "a * f * q - e \<le> a * g * q - e"
proof -
  have "(a * q) * f \<le> (a * q) * g"
    using assms by (intro mult_left_mono) simp_all
  then show ?thesis
    by (simp add: mult.commute mult.left_commute)
qed

lemma profit_mono:
  assumes "0 < f" and "f \<le> g" and "Fin 0 < b * p" and "\<not> is_nan (b * Fin f * p - e)"
  shows "b * Fin f * p - e \<le> b * Fin g * p - e"
proof (cases b)
  case bF: (Fin a)
  show ?thesis
  proof (cases p)
    case pF: (Fin q)
    from assms(3) bF pF have aq: "0 < a * q" by simp
    show ?thesis
    proof (cases e)
      case (Fin e')
      with bF pF profit_mono_Fin [OF aq assms(2), of e'] show ?thesis by simp
    qed (use bF pF assms in \<open>simp_all add: minus_pyfloat_def\<close>)
  qed (use bF assms in \<open>cases e; auto simp: minus_pyfloat_def inf_of_sign_def sgn_real_def
        zero_less_mult_iff mult_less_0_iff split: if_splits\<close>)+
qed (use assms in \<open>cases p; cases e; auto simp: minus_pyfloat_def inf_of_sign_def sgn_real_def
      zero_less_mult_iff mult_less_0_iff split: if_splits\<close>)+

lemma float_le_not_less: "(x :: pyfloat) \<le> y \<Longrightarrow> \<not> y < x"
  by (cases x; cases y) auto

text \<open>
  Claim C10, as stated, at an infinite market price: base yield times price is
  positive and sugarcane has a smaller factor than rice, yet the two profits are
  the same infinity, so neither is below the other.
\<close>

theorem profit_order_is_factor_order_counterexample:
  "Fin 0 < Fin 500 * PInf \<and>
   crop_factor ''sugarcane'' < crop_factor ''rice'' \<and>
   Profit (candidate cost_inputs PInf (Fin 500) ''sugarcane'') = PInf \<and>
   Profit (candidate cost_inputs PInf (Fin 500) ''rice'') = PInf \<and>
   \<not> (PInf < PInf)"
  by (simp add: suggest_eval inf_of_sign_def)

text \<open>
  Claim C10, amended. The profit of a candidate is its revenue minus an expense that
  does not depend on the crop. When base yield times market price is positive and
  neither profit is NaN, a candidate whose factor is not above that of another does
  not have the higher profit: the order of the factors carries over to the profits
  as a non-strict order, and a strictly higher profit is the sign of a strictly
  higher factor. A crop that is not in the factor table has the factor 0.75.
\<close>

theorem profit_order_is_factor_order:
  assumes "Fin 0 < base_yield * user_price"
    and "\<not> is_nan (Profit (candidate data user_price base_yield a))"
    and "\<not> is_nan (Profit (candidate data user_price base_yield b))"
  shows "(crop_factor a \<le> crop_factor b \<longrightarrow>
            Profit (candidate data user_price base_yield a)
              \<le> Profit (candidate data user_price base_yield b)) \<and>
         (Profit (candidate data user_price base_yield b)
            < Profit (candidate data user_price base_yield a) \<longrightarrow>
              crop_factor b < crop_factor a) \<and>
         Profit (candidate data user_price base_yield a)
            = base_yield * crop_factor a * user_price - fixed_expense data \<and>
         Profit (candidate data user_price base_yield b)
            = base_yield * crop_factor b * user_price - fixed_expense data \<and>
         (map_of CROP_FACTOR a = None \<longrightarrow> crop_factor a = Fin 0.75)"
proof -
  obtain f g where fg: "crop_factor a = Fin f" "0 < f" "crop_factor b = Fin g" "0 < g"
    using crop_factor_pos by blast
  have nan_a: "\<not> is_nan (base_yield * Fin f * user_price - fixed_expense data)"
    using assms(2) fg by (simp add: candidate_Profit)
  have mono: "Profit (candidate data user_price base_yield a)
                \<le> Profit (candidate data user_price base_yield b)" if "f \<le> g"
    using profit_mono [OF fg(2) that assms(1) nan_a] fg by (simp add: candidate_Profit)
  have 1: "crop_factor a \<le> crop_factor b \<longrightarrow>
            Profit (candidate data user_price base_yield a)
              \<le> Profit (candidate data user_price base_yield b)"
    using mono fg by simp
  have 2: "Profit (candidate data user_price base_yield b)
            < Profit (candidate data user_price base_yield a) \<longrightarrow>
              crop_factor b < crop_factor a"
  proof
    assume lt: "Profit (candidate data user_price base_yield b)
            < Profit (candidate data user_price base_yield a)"
    have "\<not> f \<le> g"
    proof
      assume "f \<le> g"
      then have "Profit (candidate data user_price base_yield a)
                \<le> Profit (candidate data user_price base_yield b)"
        by (rule mono)
      then show False
        using lt by (simp add: float_le_not_less)
    qed
    then show "crop_factor b < crop_factor a"
      using fg by simp
  qed
  have 3: "map_of CROP_FACTOR a = None \<longrightarrow> crop_factor a = Fin 0.75"
    by (simp add: crop_factor_def)
  from 1 2 3 show ?thesis
    by (simp add: candidate_Profit)
qed

theorem profit_order_is_factor_order_witness:
  "Profit (candidate cost_inputs (Fin 10) (Fin 500) ''sugarcane'')
     \<le> Profit (candidate cost_inputs (Fin 10) (Fin 500) ''oats'') \<and>
   Profit (candidate cost_inputs (Fin 10) (Fin 500) ''sugarcane'') = Fin 2630 \<and>
   crop_factor ''sugarcane'' = Fin 0.64 \<and> crop_factor ''oats'' = Fin 0.75"
proof -
  have h: "Fin 0 < Fin 500 * Fin 10"
    "\<not> is_nan (Profit (candidate cost_inputs (Fin 10) (Fin 500) ''sugarcane''))"
    "\<not> is_nan (Profit (candidate cost_inputs (Fin 10) (Fin 500) ''oats''))"
    by (simp_all add: suggest_eval)
  have f: "crop_factor ''sugarcane'' = Fin 0.64" "crop_factor ''oats'' = Fin 0.75"
    by (simp_all add: crop_factor_def CROP_FACTOR_def)
  show ?thesis
    using profit_order_is_factor_order [OF h] f
    by (simp add: fixed_expense_def dict_get_def to_float_def float_overflow_def
        cost_inputs_def)
qed

section \<open>The request handler\<close>

lemma bind_eq_Inr: "(bind m f = Inr y) = (\<exists>x. m = Inr x \<and> f x = Inr y)"
  by (cases m) (simp_all add: bind_def)

lemma api_predict_all_Inr:
  assumes "api_predict_all M ALL_CROPS request = Inr r"
  shows "\<exists>predicted_yield predicted_expense price.
           Predicted_Yield r = predicted_yield \<and> Total_Expense r = predicted_expense \<and>
           Predicted_Revenue r = predicted_yield * price \<and>
           Net_Profit r = py_max (predicted_yield * price - predicted_expense) (Fin 0) \<and>
           Loss r = py_max (predicted_expense - predicted_yield * price) (Fin 0)"
  using assms unfolding api_predict_all_def Let_def bind_eq_Inr
  by auto

lemma to_float_JNum: "to_float (JNum r) = r"
  by (simp add: to_float_def)

lemma to_float_JNull: "to_float JNull = Fin 0"
  by (simp add: to_float_def)

lemma normalize_costs_fertilizer:
  "normalize_costs data ''fertilizer'' =
     Some (JNum (cost_value data ''fertilizer'' ''Fertilizer_Usage_kg_per_hectare''))"
  by (simp add: normalize_costs_def Let_def cost_value_def dict_get_def)

lemma normalize_costs_pesticide:
  "normalize_costs data ''pesticide'' =
     Some (JNum (cost_value data ''pesticide'' ''Pesticide_Usage_litre_per_hectare''))"
  by (simp add: normalize_costs_def Let_def cost_value_def dict_get_def)

lemma normalize_costs_seed:
  "normalize_costs data ''seed'' =
     Some (JNum (cost_value data ''seed'' ''Seed_Expense_per_hectare(INR)''))"
  by (simp add: normalize_costs_def Let_def cost_value_def dict_get_def)

lemma normalize_costs_other:
  "normalize_costs data ''other'' =
     Some (JNum (cost_value data ''other'' ''Other_Expense(INR)''))"
  by (simp add: normalize_costs_def Let_def cost_value_def dict_get_def)

lemma normalize_costs_unchanged:
  assumes "k \<noteq> ''fertilizer''" and "k \<noteq> ''pesticide''" and "k \<noteq> ''seed''" and "k \<noteq> ''other''"
  shows "normalize_costs data k = data k"
  using assms by (simp add: normalize_costs_def Let_def)

lemma normalize_costs_features:
  "normalize_costs data ''N'' = data ''N''"
  "normalize_costs data ''P'' = data ''P''"
  "normalize_costs data ''K'' = data ''K''"
  "normalize_costs data ''temperature'' = data ''temperature''"
  "normalize_costs data ''humidity'' = data ''humidity''"
  "normalize_costs data ''ph'' = data ''ph''"
  "normalize_costs data ''rainfall'' = data ''rainfall''"
  "normalize_costs data ''market_price'' = data ''market_price''"
  by (simp_all add: normalize_costs_unchanged)

lemma check_crop_failure_normalize:
  "check_crop_failure (normalize_costs data) = check_crop_failure data"
  by (simp add: check_crop_failure_def getitem_def normalize_costs_features)

lemma ml_input_present:
  assumes "data ''N'' = Some N" and "data ''P'' = Some P" and "data ''K'' = Some K"
    and "data ''temperature'' = Some temp" and "data ''humidity'' = Some humidity"
    and "data ''ph'' = Some ph" and "data ''rainfall'' = Some rain"
  shows "ml_input data =
           Inr [to_float N, to_float P, to_float K, to_float temp, to_float humidity,
                to_float ph, to_float rain]"
  using assms by (simp add: ml_input_def getitem_Some bind_Inr)

lemma api_predict_all_failure:
  assumes "request ''N'' = Some N" and "request ''P'' = Some P" and "request ''K'' = Some K"
    and "request ''temperature'' = Some temp" and "request ''humidity'' = Some humidity"
    and "request ''ph'' = Some ph" and "request ''rainfall'' = Some rain"
    and "request ''market_price'' = Some market_price"
    and "check_crop_failure request = Inr True"
  shows "api_predict_all M ALL_CROPS request =
     (let data = normalize_costs request;
          raw_exp = rf_expense M
            [cost_value request ''fertilizer'' ''Fertilizer_Usage_kg_per_hectare'',
             cost_value request ''pesticide'' ''Pesticide_Usage_litre_per_hectare'',
             cost_value request ''seed'' ''Seed_Expense_per_hectare(INR)'',
             cost_value request ''other'' ''Other_Expense(INR)''];
          predicted_expense =
            raw_exp * expense_corr (to_float temp) (to_float rain) (to_float humidity);
          price = to_float market_price;
          profit = py_max (Fin 1 * price - predicted_expense) (Fin 0)
      in Inr \<lparr>Predicted_Crop = ''Crop Failure'',
              Predicted_Yield = Fin 1,
              Total_Expense = predicted_expense,
              Predicted_Revenue = Fin 1 * price,
              Net_Profit = profit,
              Loss = py_max (predicted_expense - Fin 1 * price) (Fin 0),
              Best_Crops =
                (if profit > Fin 0 then suggest_best_crops ALL_CROPS data price (Fin 1) else []),
              show_suggestions = (profit > Fin 0)\<rparr>)"
proof -
  let ?data = "normalize_costs request"
  have X: "ml_input ?data =
             Inr [to_float N, to_float P, to_float K, to_float temp, to_float humidity,
                  to_float ph, to_float rain]"
    by (rule ml_input_present) (simp_all add: normalize_costs_features assms)
  have F: "check_crop_failure ?data = Inr True"
    by (simp add: check_crop_failure_normalize assms)
  have E: "apply_expense_correction e ?data =
             Inr (e * expense_corr (to_float temp) (to_float rain) (to_float humidity))" for e
    by (rule apply_expense_correction_present) (simp_all add: normalize_costs_features assms)
  have G: "getitem ?data ''fertilizer'' =
             Inr (JNum (cost_value request ''fertilizer'' ''Fertilizer_Usage_kg_per_hectare''))"
    "getitem ?data ''pesticide'' =
             Inr (JNum (cost_value request ''pesticide'' ''Pesticide_Usage_litre_per_hectare''))"
    "getitem ?data ''seed'' =
             Inr (JNum (cost_value request ''seed'' ''Seed_Expense_per_hectare(INR)''))"
    "getitem ?data ''other'' =
             Inr (JNum (cost_value request ''other'' ''Other_Expense(INR)''))"
    "getitem ?data ''market_price'' = Inr market_price"
    by (simp_all add: getitem_def normalize_costs_fertilizer normalize_costs_pesticide
        normalize_costs_seed normalize_costs_other normalize_costs_features assms)
  show ?thesis
    unfolding api_predict_all_def Let_def
    by (simp add: X F E G bind_Inr to_float_JNum)
qed

lemmas request_eval = normalize_costs_def cost_value_def py_or_def dict_get_def getitem_def
  bind_def ml_input_def check_crop_failure_def count_extreme_def apply_yield_correction_def
  yield_corr_def apply_expense_correction_def expense_corr_def to_float_def
  float_overflow_def minus_pyfloat_def py_max_def

text \<open>
  Claim C2. On a request that holds the fields the handler reads and on which the
  failure detector returns true, the handler answers with the crop
  \<open>Crop Failure\<close> and the yield 1, and its expense is the expense correction
  applied to the raw expense prediction, the same call as on every other request.
\<close>

theorem crop_failure_override:
  fixes M :: models
  assumes "request ''N'' = Some N" and "request ''P'' = Some P" and "request ''K'' = Some K"
    and "request ''temperature'' = Some temp" and "request ''humidity'' = Some humidity"
    and "request ''ph'' = Some ph" and "request ''rainfall'' = Some rain"
    and "request ''market_price'' = Some market_price"
    and "check_crop_failure request = Inr True"
  defines "raw_exp \<equiv> rf_expense M
            [cost_value request ''fertilizer'' ''Fertilizer_Usage_kg_per_hectare'',
             cost_value request ''pesticide'' ''Pesticide_Usage_litre_per_hectare'',
             cost_value request ''seed'' ''Seed_Expense_per_hectare(INR)'',
             cost_value request ''other'' ''Other_Expense(INR)'']"
  shows "\<exists>r. api_predict_all M ALL_CROPS request = Inr r \<and>
             Predicted_Crop r = ''Crop Failure'' \<and>
             Predicted_Yield r = Fin 1 \<and>
             apply_expense_correction raw_exp (normalize_costs request) = Inr (Total_Expense r) \<and>
             Total_Expense r =
               raw_exp * expense_corr (to_float temp) (to_float rain) (to_float humidity)"
proof -
  have E: "apply_expense_correction raw_exp (normalize_costs request) =
             Inr (raw_exp * expense_corr (to_float temp) (to_float rain) (to_float humidity))"
    by (rule apply_expense_correction_present) (simp_all add: normalize_costs_features assms)
  show ?thesis
    unfolding api_predict_all_failure [OF assms(1-9)] Let_def E raw_exp_def [symmetric]
    by simp
qed

theorem crop_failure_override_witness:
  "check_crop_failure hot_dry_request = Inr True \<and>
   (\<exists>r. api_predict_all sample_models [] hot_dry_request = Inr r \<and>
        Predicted_Crop r = ''Crop Failure'' \<and> Predicted_Yield r = Fin 1 \<and>
        Total_Expense r = Fin 3120)"
proof -
  have f: "check_crop_failure hot_dry_request = Inr True"
    by (simp add: hot_dry_request_def request_eval)
  have "\<exists>r. api_predict_all sample_models [] hot_dry_request = Inr r \<and>
        Predicted_Crop r = ''Crop Failure'' \<and> Predicted_Yield r = Fin 1 \<and>
        Total_Expense r = Fin 3120"
    using crop_failure_override [where request = hot_dry_request and M = sample_models
        and ALL_CROPS = "[]" and N = "JInt 10" and P = "JInt 10" and K = "JInt 10"
        and temp = "JInt 50" and humidity = "JInt 60" and ph = "JInt 4" and rain = "JInt 10"
        and market_price = "JInt 10", OF _ _ _ _ _ _ _ _ f]
    by (auto simp: hot_dry_request_def sample_models_def expense_corr_def to_float_def
        float_overflow_def)
  with f show ?thesis
    by blast
qed

lemma mild_response:
  "api_predict_all sample_models sample_catalog mild_request =
     Inr \<lparr>Predicted_Crop = ''rice'', Predicted_Yield = Fin 300, Total_Expense = Fin 2400,
          Predicted_Revenue = Fin 3000, Net_Profit = Fin 600, Loss = Fin 0,
          Best_Crops = [\<lparr>Crop = ''rice'', Yield = Fin 234, Profit = Fin 2340\<rparr>,
                        \<lparr>Crop = ''maize'', Yield = Fin 216, Profit = Fin 2160\<rparr>,
                        \<lparr>Crop = ''banana'', Yield = Fin 210, Profit = Fin 2100\<rparr>],
          show_suggestions = True\<rparr>"
  by (simp add: api_predict_all_def mild_request_def sample_models_def sample_catalog_def
      request_eval adjust_to_valid_crop_def lower_def char_lower_def strip_def is_space_def
      suggest_best_crops_def sorted_reverse_def candidate_def crop_factor_def CROP_FACTOR_def
      fixed_expense_def Let_def)

lemma py_max_complementary:
  assumes "\<not> is_nan (x - y)"
  shows "Fin 0 \<le> py_max (x - y) (Fin 0) \<and> Fin 0 \<le> py_max (y - x) (Fin 0) \<and>
         (py_max (x - y) (Fin 0) = Fin 0 \<or> py_max (y - x) (Fin 0) = Fin 0) \<and>
         (is_finite (py_max (x - y) (Fin 0)) \<and> is_finite (py_max (y - x) (Fin 0)) \<longrightarrow>
            py_max (x - y) (Fin 0) * py_max (y - x) (Fin 0) = Fin 0)"
  using assms by (cases x; cases y) (auto simp: py_max_def minus_pyfloat_def)

text \<open>
  Claim C9, as stated, at a market price that is the string \<^verbatim>\<open>nan\<close>: the conversion
  gives NaN, the revenue is NaN, and the handler answers with a profit and a loss
  that are both NaN, neither at least 0 nor equal to 0.
\<close>

theorem profit_loss_complementary_counterexample:
  "api_predict_all sample_models sample_catalog nan_price_request =
     Inr \<lparr>Predicted_Crop = ''rice'', Predicted_Yield = Fin 300, Total_Expense = Fin 2400,
          Predicted_Revenue = NaN, Net_Profit = NaN, Loss = NaN,
          Best_Crops = [], show_suggestions = False\<rparr> \<and>
   \<not> (Fin 0 \<le> NaN) \<and> NaN \<noteq> Fin 0"
  by (simp add: api_predict_all_def nan_price_request_def mild_request_def sample_models_def
      sample_catalog_def request_eval float_eval adjust_to_valid_crop_def Let_def)

text \<open>
  Claim C9, amended. In every response the profit is \<open>max (revenue - expense, 0)\<close>
  and the loss is \<open>max (expense - revenue, 0)\<close>, with Python's \<^verbatim>\<open>max\<close>. When
  revenue minus expense is not NaN, both are at least 0 and one of them is 0, and
  their product is 0 when both are finite.
\<close>

theorem profit_loss_complementary:
  assumes "api_predict_all M ALL_CROPS request = Inr r"
  shows "Net_Profit r = py_max (Predicted_Revenue r - Total_Expense r) (Fin 0) \<and>
         Loss r = py_max (Total_Expense r - Predicted_Revenue r) (Fin 0) \<and>
         (\<not> is_nan (Predicted_Revenue r - Total_Expense r) \<longrightarrow>
            Fin 0 \<le> Net_Profit r \<and> Fin 0 \<le> Loss r \<and>
            (Net_Profit r = Fin 0 \<or> Loss r = Fin 0) \<and>
            (is_finite (Net_Profit r) \<and> is_finite (Loss r) \<longrightarrow>
               Net_Profit r * Loss r = Fin 0))"
proof -
  from api_predict_all_Inr [OF assms] obtain y e p where
    "Predicted_Yield r = y" "Total_Expense r = e" "Predicted_Revenue r = y * p"
    "Net_Profit r = py_max (y * p - e) (Fin 0)" "Loss r = py_max (e - y * p) (Fin 0)"
    by blast
  then show ?thesis
    using py_max_complementary [of "y * p" e] by simp
qed

theorem profit_loss_complementary_witness:
  "\<exists>r. api_predict_all sample_models sample_catalog mild_request = Inr r \<and>
       Net_Profit r = Fin 600 \<and> Loss r = Fin 0 \<and> Net_Profit r * Loss r = Fin 0"
  using profit_loss_complementary [OF mild_response] mild_response by simp

text \<open>
  Claim C8, at an empty catalog: the ranker returns the empty list, but the resolver
  raises \<open>IndexError\<close> at \<^verbatim>\<open>valid_list[0]\<close>, and a request on which the failure
  detector returns false ends in the error response.
\<close>

theorem empty_catalog_request_fails:
  "adjust_to_valid_crop ''rice'' [] = Inl IndexError \<and>
   api_predict_all sample_models [] mild_request = Inl IndexError \<and>
   suggest_best_crops [] cost_inputs (Fin 10) (Fin 500) = []"
  by (simp add: api_predict_all_def mild_request_def sample_models_def request_eval
      adjust_to_valid_crop_def suggest_best_crops_def sorted_reverse_def Let_def)

section \<open>Input normalisation\<close>

text \<open>
  Claim C6, as stated, at a request without the field N: the frame is not built,
  \<^verbatim>\<open>data["N"]\<close> raises \<open>KeyError\<close> and the handler answers with the error response.
\<close>

theorem input_normalization_counterexample:
  "no_nitrogen_request ''N'' = None \<and>
   ml_input (normalize_costs no_nitrogen_request) = Inl (KeyError ''N'') \<and>
   api_predict_all sample_models sample_catalog no_nitrogen_request = Inl (KeyError ''N'')"
  by (simp add: api_predict_all_def no_nitrogen_request_def ml_input_def getitem_def bind_def
      normalize_costs_def Let_def)

lemma ml_input_missing:
  assumes "k \<in> set feature_keys" and "data k = None"
  shows "\<exists>k' \<in> set feature_keys. ml_input data = Inl (KeyError k')"
  using assms
  by (auto simp: feature_keys_def ml_input_def getitem_def bind_def split: option.splits)

text \<open>
  Claim C6, amended. When the seven fields of the feature record are present in the
  request, the frame is built without an error from their converted values, and the
  conversion gives 0.0 for \<^verbatim>\<open>None\<close> and for every value that is not numeric. When
  one of the seven fields is missing, reading it raises \<open>KeyError\<close> and the
  handler answers with the error response.
\<close>

theorem input_normalization:
  "(request ''N'' = Some N \<and> request ''P'' = Some P \<and> request ''K'' = Some K \<and>
    request ''temperature'' = Some temp \<and> request ''humidity'' = Some humidity \<and>
    request ''ph'' = Some ph \<and> request ''rainfall'' = Some rain \<longrightarrow>
      ml_input (normalize_costs request) =
        Inr [to_float N, to_float P, to_float K, to_float temp, to_float humidity,
             to_float ph, to_float rain]) \<and>
   (py_float v = None \<longrightarrow> to_float v = Fin 0) \<and>
   to_float JNull = Fin 0 \<and>
   (k \<in> set feature_keys \<and> request k = None \<longrightarrow>
      (\<exists>k' \<in> set feature_keys. ml_input (normalize_costs request) = Inl (KeyError k') \<and>
         api_predict_all M ALL_CROPS request = Inl (KeyError k')))"
proof -
  have a: "ml_input (normalize_costs request) =
        Inr [to_float N, to_float P, to_float K, to_float temp, to_float humidity,
             to_float ph, to_float rain]"
    if "request ''N'' = Some N" "request ''P'' = Some P" "request ''K'' = Some K"
      "request ''temperature'' = Some temp" "request ''humidity'' = Some humidity"
      "request ''ph'' = Some ph" "request ''rainfall'' = Some rain"
    by (rule ml_input_present) (simp_all add: normalize_costs_features that)
  have b: "py_float v = None \<longrightarrow> to_float v = Fin 0"
    by (simp add: to_float_def)
  have c: "\<exists>k' \<in> set feature_keys. ml_input (normalize_costs request) = Inl (KeyError k') \<and>
         api_predict_all M ALL_CROPS request = Inl (KeyError k')"
    if "k \<in> set feature_keys" "request k = None"
  proof -
    from that have "normalize_costs request k = None"
      by (auto simp: feature_keys_def normalize_costs_features)
    with that(1) obtain k' where "k' \<in> set feature_keys"
      "ml_input (normalize_costs request) = Inl (KeyError k')"
      using ml_input_missing by blast
    then show ?thesis
      by (auto simp: api_predict_all_def Let_def bind_Inl)
  qed
  from a b c show ?thesis
    by (simp add: to_float_JNull)
qed

theorem input_normalization_witness:
  "ml_input (normalize_costs dry_request) =
     Inr [Fin 50, Fin 50, Fin 12, Fin 30, Fin 60, Fin 6.5, Fin 10] \<and>
   to_float (JStr ''twelve'') = Fin 0 \<and>
   api_predict_all sample_models sample_catalog no_nitrogen_request = Inl (KeyError ''N'')"
proof -
  have a: "ml_input (normalize_costs dry_request) =
        Inr [to_float (JInt 50), to_float (JInt 50), to_float (JStr ''12''), to_float (JInt 30),
             to_float (JInt 60), to_float (JNum (Fin 6.5)), to_float (JInt 10)]"
    using input_normalization [where request = dry_request and N = "JInt 50" and P = "JInt 50"
        and K = "JStr ''12''" and temp = "JInt 30" and humidity = "JInt 60"
        and ph = "JNum (Fin 6.5)" and rain = "JInt 10"]
    by (simp add: dry_request_def)
  have b: "to_float (JStr ''twelve'') = Fin 0"
    using input_normalization [where v = "JStr ''twelve''"]
    by (simp add: float_of_string_def strip_def is_space_def is_digit_def split_sign_def
        decimal_of_string_def inf_or_nan_def lower_def char_lower_def)
  have "\<exists>k' \<in> set feature_keys.
          api_predict_all sample_models sample_catalog no_nitrogen_request = Inl (KeyError k')"
    using input_normalization [where request = no_nitrogen_request and k = "''N''"
        and M = sample_models and ALL_CROPS = sample_catalog]
    by (auto simp: feature_keys_def no_nitrogen_request_def)
  then have c: "api_predict_all sample_models sample_catalog no_nitrogen_request = Inl (KeyError ''N'')"
    by (auto simp: feature_keys_def api_predict_all_def no_nitrogen_request_def ml_input_def
        getitem_def bind_def normalize_costs_def Let_def)
  from a b c show ?thesis
    by (simp add: float_eval)
qed

text \<open>
  Claim C7, as stated, at a short-form fertilizer entry that is the number 0 beside
  a verbose-form entry of 50: the value used is 50.
\<close>

theorem cost_value_priority_counterexample:
  "both_keys_request ''fertilizer'' = Some (JInt 0) \<and>
   both_keys_request ''Fertilizer_Usage_kg_per_hectare'' = Some (JInt 50) \<and>
   normalize_costs both_keys_request ''fertilizer'' = Some (JNum (Fin 50)) \<and>
   to_float (JInt 0) \<noteq> Fin 50"
  by (simp add: normalize_costs_fertilizer cost_value_def dict_get_def py_or_def
      both_keys_request_def to_float_def float_overflow_def)

text \<open>
  Claim C7, amended. Each of the four cost fields is set to the converted value of
  \<^verbatim>\<open>data.get(short) or data.get(verbose)\<close>: the short-form value when it is present
  and true in Python's sense (not \<^verbatim>\<open>None\<close>, not the empty string, not the number
  zero, not false, not an empty list or object), else the verbose-form value, and 0.0
  when both keys are absent.
\<close>

theorem cost_value_priority:
  "normalize_costs data ''fertilizer'' =
     Some (JNum (cost_value data ''fertilizer'' ''Fertilizer_Usage_kg_per_hectare'')) \<and>
   normalize_costs data ''pesticide'' =
     Some (JNum (cost_value data ''pesticide'' ''Pesticide_Usage_litre_per_hectare'')) \<and>
   normalize_costs data ''seed'' =
     Some (JNum (cost_value data ''seed'' ''Seed_Expense_per_hectare(INR)'')) \<and>
   normalize_costs data ''other'' =
     Some (JNum (cost_value data ''other'' ''Other_Expense(INR)'')) \<and>
   (data short = Some v \<and> truthy v \<longrightarrow> cost_value data short verbose = to_float v) \<and>
   (data short = None \<or> (\<exists>v. data short = Some v \<and> \<not> truthy v) \<longrightarrow>
      cost_value data short verbose = to_float (dict_get data verbose)) \<and>
   (data short = None \<and> data verbose = None \<longrightarrow> cost_value data short verbose = Fin 0)"
  by (auto simp: normalize_costs_fertilizer normalize_costs_pesticide normalize_costs_seed
      normalize_costs_other cost_value_def py_or_def dict_get_def to_float_JNull)

theorem cost_value_priority_witness:
  "normalize_costs both_keys_request ''seed'' = Some (JNum (Fin 200)) \<and>
   normalize_costs both_keys_request ''other'' = Some (JNum (Fin 75)) \<and>
   normalize_costs both_keys_request ''pesticide'' = Some (JNum (Fin 0))"
  using cost_value_priority [where data = both_keys_request and short = "''seed''"
      and verbose = "''Seed_Expense_per_hectare(INR)''" and v = "JStr ''200''"]
    cost_value_priority [where data = both_keys_request and short = "''other''"
      and verbose = "''Other_Expense(INR)''"]
    cost_value_priority [where data = both_keys_request and short = "''pesticide''"
      and verbose = "''Pesticide_Usage_litre_per_hectare''"]
  by (simp add: both_keys_request_def dict_get_def float_eval)

end
